theory Spec2Isabelle
  imports Main "HOL-Library.Word"
begin

section \<open>The store API of oklog: \<^verbatim>\<open>pkg/store/api.go\<close>\<close>

text \<open>
  The file holds the HTTP surface of a store node: the router \<^verbatim>\<open>ServeHTTP\<close> with
  its \<^verbatim>\<open>interceptingWriter\<close>, the scatter-gather query handler, the two stream
  handlers, the replication handler and the cluster-state handler.

  The handlers are embedded as functions from the response writer and the request to an
  \<^emph>\<open>outcome\<close>: the writer as the handler leaves it, and the calls the handler made on
  its collaborators, in order. Everything the file calls but does not define (the peer
  directory, the local log, query parameters and results, \<^verbatim>\<open>net/url\<close>, the HTTP client,
  the clock) is a field of the record \<open>API\<close>, so every theorem holds for every behaviour
  of those collaborators. Logging is left out: it changes neither the response nor any
  collaborator the handlers read.
\<close>

subsection \<open>Constants\<close>

definition APIPathUserQuery :: string where
  "APIPathUserQuery = ''/query''"

definition APIPathInternalQuery :: string where
  "APIPathInternalQuery = ''/_query''"

definition APIPathUserStream :: string where
  "APIPathUserStream = ''/stream''"

definition APIPathInternalStream :: string where
  "APIPathInternalStream = ''/_stream''"

definition APIPathReplicate :: string where
  "APIPathReplicate = ''/replicate''"

definition APIPathClusterState :: string where
  "APIPathClusterState = ''/_clusterstate''"

definition StatusOK :: int where
  "StatusOK = 200"

definition StatusTemporaryRedirect :: int where
  "StatusTemporaryRedirect = 307"

definition StatusBadRequest :: int where
  "StatusBadRequest = 400"

definition StatusNotFound :: int where
  "StatusNotFound = 404"

definition StatusPreconditionFailed :: int where
  "StatusPreconditionFailed = 412"

definition StatusInternalServerError :: int where
  "StatusInternalServerError = 500"

definition StatusServiceUnavailable :: int where
  "StatusServiceUnavailable = 503"

definition newline :: string where
  "newline = [CHR 0x0A]"

subsection \<open>Requests, URLs and peer responses\<close>

text \<open>\<^verbatim>\<open>url.Values\<close>: the decoded query string, a key with its values.\<close>

type_synonym Values = "(string \<times> string list) list"

record URL =
  Scheme :: string
  Host :: string
  Path :: string
  RawQuery :: string

record Request =
  Method :: string
  URL :: URL
  Body :: string

text \<open>
  What one goroutine of the scatter sends on the channel: \<^verbatim>\<open>response{resp, err}\<close>,
  where \<^verbatim>\<open>http.Client.Do\<close> returns either an error or a response.
\<close>

record Response =
  StatusCode :: int
  RespBody :: string

datatype response = Failed string | Answered Response

subsection \<open>Response writers\<close>

text \<open>
  The state of the server's own \<^verbatim>\<open>http.ResponseWriter\<close>: the status line once it is
  written, the header map, the bytes written and the number of flushes. \<open>isFlusher\<close>
  says whether its dynamic type has a \<^verbatim>\<open>Flush\<close> method. As in \<^verbatim>\<open>net/http\<close>, the first
  \<^verbatim>\<open>WriteHeader\<close> fixes the status, a later one is ignored, and a \<^verbatim>\<open>Write\<close> or
  \<^verbatim>\<open>Flush\<close> before any \<^verbatim>\<open>WriteHeader\<close> sends status 200.
\<close>

record serverResponse =
  isFlusher :: bool
  wroteHeader :: "int option"
  header :: "(string \<times> string) list"
  written :: string
  flushed :: nat

definition srv_WriteHeader :: "int \<Rightarrow> serverResponse \<Rightarrow> serverResponse" where
  "srv_WriteHeader c s = (if wroteHeader s = None then s\<lparr>wroteHeader := Some c\<rparr> else s)"

definition srv_Write :: "string \<Rightarrow> serverResponse \<Rightarrow> serverResponse" where
  "srv_Write b s =
     (let s' = srv_WriteHeader StatusOK s in s'\<lparr>written := written s' @ b\<rparr>)"

definition srv_Flush :: "serverResponse \<Rightarrow> serverResponse" where
  "srv_Flush s =
     (let s' = srv_WriteHeader StatusOK s in s'\<lparr>flushed := Suc (flushed s')\<rparr>)"

definition srv_Header_Set :: "string \<Rightarrow> string \<Rightarrow> serverResponse \<Rightarrow> serverResponse" where
  "srv_Header_Set k v s = s\<lparr>header := (k, v) # filter (\<lambda>p. fst p \<noteq> k) (header s)\<rparr>"

text \<open>
  A value of the interface \<^verbatim>\<open>http.ResponseWriter\<close> is the server's writer or an
  \<^verbatim>\<open>interceptingWriter{code, ResponseWriter}\<close> around another writer. The struct embeds
  the \<^emph>\<open>interface\<close>, so its method set is \<^verbatim>\<open>Header\<close>, \<^verbatim>\<open>Write\<close> (both promoted) and its
  own \<^verbatim>\<open>WriteHeader\<close>; it declares no \<^verbatim>\<open>Flush\<close>, whatever the embedded value can do.
\<close>

datatype ResponseWriter =
    Server serverResponse
  | interceptingWriter (code: int) (embedded: ResponseWriter)

fun WriteHeader :: "int \<Rightarrow> ResponseWriter \<Rightarrow> ResponseWriter" where
  "WriteHeader c (Server s) = Server (srv_WriteHeader c s)"
| "WriteHeader c (interceptingWriter old w) = interceptingWriter c (WriteHeader c w)"

fun Write :: "string \<Rightarrow> ResponseWriter \<Rightarrow> ResponseWriter" where
  "Write b (Server s) = Server (srv_Write b s)"
| "Write b (interceptingWriter c w) = interceptingWriter c (Write b w)"

fun Header_Set :: "string \<Rightarrow> string \<Rightarrow> ResponseWriter \<Rightarrow> ResponseWriter" where
  "Header_Set k v (Server s) = Server (srv_Header_Set k v s)"
| "Header_Set k v (interceptingWriter c w) = interceptingWriter c (Header_Set k v w)"

fun Header :: "ResponseWriter \<Rightarrow> (string \<times> string) list" where
  "Header (Server s) = header s"
| "Header (interceptingWriter c w) = Header w"

text \<open>The type assertion \<^verbatim>\<open>w.(http.Flusher)\<close>: does the dynamic type have \<^verbatim>\<open>Flush\<close>?\<close>

fun assertFlusher :: "ResponseWriter \<Rightarrow> bool" where
  "assertFlusher (Server s) = isFlusher s"
| "assertFlusher (interceptingWriter c w) = False"

text \<open>\<^verbatim>\<open>flusher.Flush()\<close>; only a writer that passed the assertion is ever flushed.\<close>

fun Flush :: "ResponseWriter \<Rightarrow> ResponseWriter" where
  "Flush (Server s) = Server (srv_Flush s)"
| "Flush (interceptingWriter c w) = interceptingWriter c w"

text \<open>The server's response underneath all wrappers: what the client receives.\<close>

fun sent :: "ResponseWriter \<Rightarrow> serverResponse" where
  "sent (Server s) = s"
| "sent (interceptingWriter c w) = sent w"

definition Fprintln :: "ResponseWriter \<Rightarrow> string \<Rightarrow> ResponseWriter" where
  "Fprintln w s = Write (s @ newline) w"

text \<open>\<^verbatim>\<open>http.Error\<close>: two headers, the status, the message and a newline.\<close>

definition http_Error :: "ResponseWriter \<Rightarrow> string \<Rightarrow> int \<Rightarrow> ResponseWriter" where
  "http_Error w msg c =
     Fprintln
       (WriteHeader c
         (Header_Set ''X-Content-Type-Options'' ''nosniff''
           (Header_Set ''Content-Type'' ''text/plain; charset=utf-8'' w)))
       msg"

definition http_NotFound :: "ResponseWriter \<Rightarrow> ResponseWriter" where
  "http_NotFound w = http_Error w ''404 page not found'' StatusNotFound"

subsection \<open>\<^verbatim>\<open>strconv.Itoa\<close>\<close>

definition digit :: "nat \<Rightarrow> char" where
  "digit d = ''0123456789'' ! d"

fun utoa :: "nat \<Rightarrow> string" where
  "utoa n = (if n < 10 then [digit n] else utoa (n div 10) @ [digit (n mod 10)])"

definition Itoa :: "int \<Rightarrow> string" where
  "Itoa i = (if i < 0 then CHR ''-'' # utoa (nat (- i)) else utoa (nat i))"

subsection \<open>The conversion \<^verbatim>\<open>float64(n)\<close>\<close>

text \<open>
  The value of \<^verbatim>\<open>float64(n)\<close> for a 64-bit integer \<open>n\<close>: \<open>n\<close> itself below \<open>2^53\<close>
  in magnitude, and otherwise \<open>n\<close> rounded to 53 significant bits, to the nearest and
  on a tie to the even one. The result is an integer, so it is given as one.
\<close>

fun bitlen :: "nat \<Rightarrow> nat" where
  "bitlen n = (if n = 0 then 0 else Suc (bitlen (n div 2)))"

definition float64 :: "int \<Rightarrow> int" where
  "float64 i =
     (let m = nat \<bar>i\<bar> in
      if m < 2 ^ 53 then i
      else
        (let e = bitlen m - 53;
             q = m div 2 ^ e;
             r = m mod 2 ^ e;
             q' = (if 2 ^ (e - 1) < r \<or> (r = 2 ^ (e - 1) \<and> odd q) then q + 1 else q)
         in sgn i * int (q' * 2 ^ e)))"

subsection \<open>Query results\<close>

text \<open>
  Modelled from the spec: the declaration of \<^verbatim>\<open>QueryResult\<close> is not in this file,
  which reads and writes its fields \<^verbatim>\<open>Params\<close>, \<^verbatim>\<open>ErrorCount\<close> and \<^verbatim>\<open>Duration\<close>. The
  data model lists, besides these, a count of what matched and the matched records.
  \<^verbatim>\<open>ErrorCount\<close> is a Go \<^verbatim>\<open>int\<close> (64 bits): \<^verbatim>\<open>ErrorCount++\<close> wraps.
\<close>

record 'q QueryResult =
  Params :: 'q
  Matched :: "64 word"
  ErrorCount :: "64 word"
  Duration :: string
  Records :: "string list"

subsection \<open>Effects and collaborators\<close>

type_synonym ULID = "128 word"

text \<open>
  The calls a handler makes on its collaborators. \<open>ClientDo req\<close> is one goroutine's
  \<^verbatim>\<open>http.DefaultClient.Do(req)\<close>; \<open>ReplicatedBytesAdd v\<close> is
  \<^verbatim>\<open>a.replicatedBytes.Add(v)\<close>, where \<open>v\<close> is the value of the \<^verbatim>\<open>float64\<close> passed;
  \<open>DurationObserve m p c\<close> is one observation of the duration histogram under the
  labels \<open>m\<close>, \<open>p\<close>, \<open>c\<close> (the observed number of seconds is the clock's).
\<close>

datatype effect =
    ClientDo Request
  | LogCreate
  | MergeRecords string
  | SegmentDelete
  | SegmentClose ULID ULID
  | BodyClose
  | ReplicatedSegmentsInc
  | ReplicatedBytesAdd int
  | DurationObserve string string string

text \<open>What a \<^verbatim>\<open>select\<close> of a stream loop receives: a record, or the context's end.\<close>

datatype selected = Record string | Done

text \<open>
  The \<^verbatim>\<open>API\<close> with the packages it calls, each as the function of its inputs that
  the handlers use:
  \<^item> \<open>peer_Current\<close>: \<^verbatim>\<open>a.peer.Current(cluster.PeerTypeStore)\<close>;
    \<open>peer_State\<close>: \<^verbatim>\<open>json.MarshalIndent(a.peer.State(), ...)\<close>, an error or the bytes;
  \<^item> \<open>log_Query\<close>, \<open>log_Stream\<close> (the records the channel yields and the context's end,
    as the loop's \<^verbatim>\<open>select\<close> sees them), \<open>log_Create\<close> (\<open>Some\<close> an error, or \<open>None\<close>
    and a new open segment), \<open>segment_Close\<close>;
  \<^item> \<open>mergeRecords\<close>: from the request body to \<^verbatim>\<open>(low, high, n, err)\<close>, with \<open>n\<close> a
    64-bit integer read as signed (\<open>sint\<close>);
  \<^item> \<open>MakeQueryParams\<close>, \<open>EncodeTo\<close> (\<^verbatim>\<open>QueryParams.EncodeTo\<close>: the values it is given,
    updated), \<open>Merge\<close> (an error, or the receiver updated), \<open>DecodeFrom\<close>,
    \<open>EncodeResult\<close> (\<^verbatim>\<open>QueryResult.EncodeTo\<close>: the headers it sets and the body it
    writes);
  \<^item> \<open>url_Parse\<close>, \<open>url_String\<close>, \<open>url_ParseQuery\<close> of \<^verbatim>\<open>net/url\<close>, and
    \<open>redirect_page\<close>: the \<^verbatim>\<open>Location\<close> and the body \<^verbatim>\<open>http.Redirect\<close> derives from
    the request and the target;
  \<^item> \<open>client_Do i req\<close>: what the \<open>i\<close>-th goroutine's \<^verbatim>\<open>Do(req)\<close> returns (every call
    is taken to return: the handler waits for all of them), and \<open>arrival\<close>: the order in
    which the channel delivers the goroutines' results;
  \<^item> \<open>since\<close>: \<^verbatim>\<open>time.Since(begin).String()\<close>;
  \<^item> \<open>stream_Execute\<close>: what \<^verbatim>\<open>stream.Execute\<close> sends on \<^verbatim>\<open>records\<close>, and the context's
    end, given the reader factory's URL function.
\<close>

record 'q API =
  peer_Current :: "string list"
  peer_State :: "string + string"
  log_Query :: "'q \<Rightarrow> bool \<Rightarrow> string + 'q QueryResult"
  log_Stream :: "'q \<Rightarrow> selected list"
  log_Create :: "string option"
  segment_Close :: "ULID \<Rightarrow> ULID \<Rightarrow> string option"
  mergeRecords :: "string \<Rightarrow> ULID \<times> ULID \<times> 64 word \<times> string option"
  MakeQueryParams :: "Values \<Rightarrow> string + 'q"
  EncodeTo :: "'q \<Rightarrow> Values \<Rightarrow> Values"
  Merge :: "'q QueryResult \<Rightarrow> 'q QueryResult \<Rightarrow> string + 'q QueryResult"
  DecodeFrom :: "Response \<Rightarrow> 'q QueryResult"
  EncodeResult :: "'q QueryResult \<Rightarrow> (string \<times> string) list \<times> string"
  url_Parse :: "string \<Rightarrow> string + URL"
  url_String :: "URL \<Rightarrow> string"
  url_ParseQuery :: "string \<Rightarrow> Values"
  redirect_page :: "Request \<Rightarrow> string \<Rightarrow> int \<Rightarrow> string \<times> string"
  client_Do :: "nat \<Rightarrow> Request \<Rightarrow> response"
  arrival :: "response list \<Rightarrow> response list"
  since :: string
  stream_Execute :: "(string \<Rightarrow> string option) \<Rightarrow> selected list"

record outcome =
  wr :: ResponseWriter
  effects :: "effect list"
  panicked :: bool

definition respond :: "ResponseWriter \<Rightarrow> effect list \<Rightarrow> outcome" where
  "respond w es = \<lparr>wr = w, effects = es, panicked = False\<rparr>"

subsection \<open>The user-facing query: scatter and gather\<close>

text \<open>
  \<^verbatim>\<open>u.Query()\<close> parses \<^verbatim>\<open>u.RawQuery\<close> and returns a new map on every call; the URL
  keeps no reference to it.
\<close>

definition URL_Query :: "'q API \<Rightarrow> URL \<Rightarrow> Values" where
  "URL_Query a u = url_ParseQuery a (RawQuery u)"

text \<open>\<^verbatim>\<open>http.NewRequest(method, urlStr, nil)\<close> for the methods GET and HEAD.\<close>

definition http_NewRequest :: "'q API \<Rightarrow> string \<Rightarrow> string \<Rightarrow> string + Request" where
  "http_NewRequest a method urlStr =
     (case url_Parse a urlStr of
        Inl e \<Rightarrow> Inl e
      | Inr u \<Rightarrow> Inr \<lparr>Method = method, URL = u, Body = []\<rparr>)"

text \<open>
  Lines 131 to 147, the loop over \<open>members\<close>. \<^verbatim>\<open>query.EncodeTo(u.Query())\<close> fills the
  map that \<^verbatim>\<open>u.Query()\<close> has just made (\<open>values\<close> below); the request is then built from
  \<^verbatim>\<open>u.String()\<close>.
\<close>

fun buildRequests :: "'q API \<Rightarrow> string \<Rightarrow> 'q \<Rightarrow> string list \<Rightarrow> string + Request list" where
  "buildRequests a method query [] = Inr []"
| "buildRequests a method query (hostport # members) =
     (case url_Parse a (''http://'' @ hostport @ ''/store'' @ APIPathInternalQuery) of
        Inl e \<Rightarrow> Inl (''constructing URL for '' @ hostport @ '': '' @ e)
      | Inr u \<Rightarrow>
          (let values = EncodeTo a query (URL_Query a u) in
           case http_NewRequest a method (url_String a u) of
             Inl e \<Rightarrow> Inl (''constructing request for '' @ hostport @ '': '' @ e)
           | Inr req \<Rightarrow>
               (case buildRequests a method query members of
                  Inl e \<Rightarrow> Inl e
                | Inr requests \<Rightarrow> Inr (req # requests))))"

text \<open>
  Lines 169 to 195, the loop over \<open>responses\<close>: a transport error or a status other
  than 200 counts one error and goes on; an answer is decoded and merged, and a merge
  error ends the loop with the wrapped error.
\<close>

fun gatherResponses ::
  "'q API \<Rightarrow> 'q QueryResult \<Rightarrow> response list \<Rightarrow> string + 'q QueryResult" where
  "gatherResponses a result [] = Inr result"
| "gatherResponses a result (Failed e # responses) =
     gatherResponses a (result\<lparr>ErrorCount := ErrorCount result + 1\<rparr>) responses"
| "gatherResponses a result (Answered resp # responses) =
     (if StatusCode resp \<noteq> StatusOK then
        gatherResponses a (result\<lparr>ErrorCount := ErrorCount result + 1\<rparr>) responses
      else
        (case Merge a result (DecodeFrom a resp) of
           Inl e \<Rightarrow> Inl (''merging results: '' @ e)
         | Inr result' \<Rightarrow> gatherResponses a result' responses))"

definition QueryResult_EncodeTo :: "'q API \<Rightarrow> 'q QueryResult \<Rightarrow> ResponseWriter \<Rightarrow> ResponseWriter" where
  "QueryResult_EncodeTo a result w =
     (let (hs, b) = EncodeResult a result in
      Write b (fold (\<lambda>(k, v). Header_Set k v) hs w))"

definition handleUserQuery :: "'q API \<Rightarrow> ResponseWriter \<Rightarrow> Request \<Rightarrow> bool \<Rightarrow> outcome" where
  "handleUserQuery a w r statsOnly =
     (let members = peer_Current a in
      if length members \<le> 0 then
        respond (http_Error w ''no store nodes available'' StatusServiceUnavailable) []
      else
        (case MakeQueryParams a (URL_Query a (URL r)) of
           Inl e \<Rightarrow> respond (http_Error w e StatusBadRequest) []
         | Inr query \<Rightarrow>
             (let method = (if statsOnly then ''HEAD'' else ''GET'') in
              case buildRequests a method query members of
                Inl e \<Rightarrow> respond (http_Error w e StatusInternalServerError) []
              | Inr requests \<Rightarrow>
                  (let responses =
                         arrival a (map2 (client_Do a) [0..<length requests] requests);
                       result = \<lparr>Params = query, Matched = 0, ErrorCount = 0,
                                 Duration = [], Records = []\<rparr>
                   in case gatherResponses a result responses of
                        Inl e \<Rightarrow>
                          respond (http_Error w e StatusInternalServerError)
                            (map ClientDo requests)
                      | Inr result' \<Rightarrow>
                          respond (QueryResult_EncodeTo a (result'\<lparr>Duration := since a\<rparr>) w)
                            (map ClientDo requests)))))"

subsection \<open>The internal query\<close>

definition handleInternalQuery :: "'q API \<Rightarrow> ResponseWriter \<Rightarrow> Request \<Rightarrow> bool \<Rightarrow> outcome" where
  "handleInternalQuery a w r statsOnly =
     (case MakeQueryParams a (URL_Query a (URL r)) of
        Inl e \<Rightarrow> respond (http_Error w e StatusBadRequest) []
      | Inr query \<Rightarrow>
          (case log_Query a query statsOnly of
             Inl e \<Rightarrow> respond (http_Error w e StatusInternalServerError) []
           | Inr result \<Rightarrow> respond (QueryResult_EncodeTo a result w) []))"

subsection \<open>The streams\<close>

text \<open>
  The \<^verbatim>\<open>for { select { ... } }\<close> loop of both stream handlers, over what the
  \<^verbatim>\<open>select\<close> receives: a record is written with a newline and flushed, the context's
  end returns. When neither ever comes again the loop blocks for ever: \<open>None\<close>.
\<close>

fun streamLoop :: "ResponseWriter \<Rightarrow> selected list \<Rightarrow> ResponseWriter option" where
  "streamLoop w [] = None"
| "streamLoop w (Done # rest) = Some w"
| "streamLoop w (Record record # rest) = streamLoop (Flush (Write (record @ newline) w)) rest"

text \<open>
  The URL function handed to \<^verbatim>\<open>stream.HTTPReaderFactory\<close> (lines 233 to 240);
  \<open>None\<close> is its \<^verbatim>\<open>panic(err)\<close>.
\<close>

definition streamURL :: "'q API \<Rightarrow> 'q \<Rightarrow> string \<Rightarrow> string option" where
  "streamURL a query addr =
     (case url_Parse a (''http://'' @ addr @ ''/store'' @ APIPathInternalStream) of
        Inl e \<Rightarrow> None
      | Inr u \<Rightarrow>
          (let values = EncodeTo a query (URL_Query a u) in Some (url_String a u)))"

definition handleUserStream :: "'q API \<Rightarrow> ResponseWriter \<Rightarrow> Request \<Rightarrow> outcome option" where
  "handleUserStream a w r =
     (case MakeQueryParams a (URL_Query a (URL r)) of
        Inl e \<Rightarrow> Some (respond (http_Error w e StatusBadRequest) [])
      | Inr query \<Rightarrow>
          if \<not> assertFlusher w then
            Some (respond (http_Error w ''can't stream to your client'' StatusPreconditionFailed) [])
          else
            map_option (\<lambda>w'. respond w' [])
              (streamLoop w (stream_Execute a (streamURL a query))))"

text \<open>
  In \<^verbatim>\<open>handleInternalStream\<close> the test \<^verbatim>\<open>err != nil\<close> after \<^verbatim>\<open>a.log.Stream\<close> reads the
  \<^verbatim>\<open>err\<close> of \<^verbatim>\<open>MakeQueryParams\<close>, which is nil there: that branch is never taken.
\<close>

definition handleInternalStream :: "'q API \<Rightarrow> ResponseWriter \<Rightarrow> Request \<Rightarrow> outcome option" where
  "handleInternalStream a w r =
     (case MakeQueryParams a (URL_Query a (URL r)) of
        Inl e \<Rightarrow> Some (respond (http_Error w e StatusBadRequest) [])
      | Inr query \<Rightarrow>
          if \<not> assertFlusher w then
            Some (respond (http_Error w ''can't stream to your client'' StatusPreconditionFailed) [])
          else
            map_option (\<lambda>w'. respond w' []) (streamLoop w (log_Stream a query)))"

subsection \<open>Replication\<close>

text \<open>
  \<^verbatim>\<open>defer r.Body.Close()\<close> runs last on every path. The byte counter receives
  \<^verbatim>\<open>float64(n)\<close>. \<^verbatim>\<open>Counter.Add\<close> panics on a negative argument; the deferred close
  still runs, and nothing is written.
\<close>

definition handleReplicate :: "'q API \<Rightarrow> ResponseWriter \<Rightarrow> Request \<Rightarrow> outcome" where
  "handleReplicate a w r =
     (case log_Create a of
        Some e \<Rightarrow> respond (http_Error w e StatusInternalServerError) [LogCreate, BodyClose]
      | None \<Rightarrow>
          (let (low, high, n, err) = mergeRecords a (Body r) in
           case err of
             Some e \<Rightarrow>
               respond (http_Error w e StatusInternalServerError)
                 [LogCreate, MergeRecords (Body r), SegmentDelete, BodyClose]
           | None \<Rightarrow>
               if n = 0 then
                 respond (Fprintln w ''No records'')
                   [LogCreate, MergeRecords (Body r), SegmentDelete, BodyClose]
               else
                 (case segment_Close a low high of
                    Some e \<Rightarrow>
                      respond (http_Error w e StatusInternalServerError)
                        [LogCreate, MergeRecords (Body r), SegmentClose low high, BodyClose]
                  | None \<Rightarrow>
                      if sint n < 0 then
                        \<lparr>wr = w,
                         effects = [LogCreate, MergeRecords (Body r), SegmentClose low high,
                                    ReplicatedSegmentsInc, BodyClose],
                         panicked = True\<rparr>
                      else
                        respond (Fprintln w ''OK'')
                          [LogCreate, MergeRecords (Body r), SegmentClose low high,
                           ReplicatedSegmentsInc, ReplicatedBytesAdd (float64 (sint n)),
                           BodyClose])))"

subsection \<open>Cluster state\<close>

definition handleClusterState :: "'q API \<Rightarrow> ResponseWriter \<Rightarrow> Request \<Rightarrow> outcome" where
  "handleClusterState a w r =
     (case peer_State a of
        Inl e \<Rightarrow> respond (http_Error w e StatusInternalServerError) []
      | Inr buf \<Rightarrow>
          respond (Write buf (Header_Set ''Content-Type'' ''application/json; charset=utf-8'' w)) [])"

subsection \<open>The router\<close>

text \<open>
  \<^verbatim>\<open>http.Redirect\<close>: the \<^verbatim>\<open>Location\<close> header, a content type when none was set, the
  status, and for GET a short page.
\<close>

definition http_Redirect ::
  "'q API \<Rightarrow> ResponseWriter \<Rightarrow> Request \<Rightarrow> string \<Rightarrow> int \<Rightarrow> ResponseWriter" where
  "http_Redirect a w r url c =
     (let (location, page) = redirect_page a r url c;
          hadCT = (map_of (Header w) ''Content-Type'' \<noteq> None);
          w1 = Header_Set ''Location'' location w;
          w2 = (if \<not> hadCT \<and> (Method r = ''GET'' \<or> Method r = ''HEAD'')
                then Header_Set ''Content-Type'' ''text/html; charset=utf-8'' w1 else w1);
          w3 = WriteHeader c w2
      in if \<not> hadCT \<and> Method r = ''GET'' then Fprintln w3 page else w3)"

text \<open>
  The \<^verbatim>\<open>switch\<close> of \<^verbatim>\<open>ServeHTTP\<close> on the method and path read at line 74: the outcome
  of the handler it calls (\<open>None\<close> when the handler never returns) and the request as the
  branch leaves it. The first branch assigns \<^verbatim>\<open>r.URL.Path\<close> before it redirects.
\<close>

definition route :: "'q API \<Rightarrow> ResponseWriter \<Rightarrow> Request \<Rightarrow> outcome option \<times> Request" where
  "route a w r =
     (let method = Method r; path = Path (URL r) in
      if method = ''GET'' \<and> path = ''/'' then
        (let r' = r\<lparr>URL := (URL r)\<lparr>Path := APIPathUserQuery\<rparr>\<rparr> in
         (Some (respond (http_Redirect a w r' (url_String a (URL r')) StatusTemporaryRedirect) []),
          r'))
      else if method = ''GET'' \<and> path = APIPathUserQuery then
        (Some (handleUserQuery a w r False), r)
      else if method = ''HEAD'' \<and> path = APIPathUserQuery then
        (Some (handleUserQuery a w r True), r)
      else if method = ''GET'' \<and> path = APIPathInternalQuery then
        (Some (handleInternalQuery a w r False), r)
      else if method = ''HEAD'' \<and> path = APIPathInternalQuery then
        (Some (handleInternalQuery a w r True), r)
      else if method = ''GET'' \<and> path = APIPathUserStream then
        (handleUserStream a w r, r)
      else if method = ''GET'' \<and> path = APIPathInternalStream then
        (handleInternalStream a w r, r)
      else if method = ''POST'' \<and> path = APIPathReplicate then
        (Some (handleReplicate a w r), r)
      else if method = ''GET'' \<and> path = APIPathClusterState then
        (Some (handleClusterState a w r), r)
      else
        (Some (respond (http_NotFound w) []), r))"

text \<open>
  \<^verbatim>\<open>ServeHTTP\<close>: the writer is wrapped, the handler runs on the wrapper, and the
  deferred function observes the duration once the handler has returned. Its closure
  reads \<^verbatim>\<open>r.Method\<close>, \<^verbatim>\<open>r.URL.Path\<close> and \<^verbatim>\<open>iw.code\<close> at that moment.
\<close>

definition ServeHTTP :: "'q API \<Rightarrow> ResponseWriter \<Rightarrow> Request \<Rightarrow> outcome option" where
  "ServeHTTP a w r =
     (let iw = interceptingWriter StatusOK w in
      case route a iw r of
        (None, r') \<Rightarrow> None
      | (Some out, r') \<Rightarrow>
          Some (out\<lparr>effects := effects out @
                  [DurationObserve (Method r') (Path (URL r')) (Itoa (code (wr out)))]\<rparr>))"

subsection \<open>Observing an outcome\<close>

text \<open>
  The status the client receives: the one written, or 200 when the handler returns
  without having written any.
\<close>

definition finalStatus :: "serverResponse \<Rightarrow> int" where
  "finalStatus s = (case wroteHeader s of Some c \<Rightarrow> c | None \<Rightarrow> StatusOK)"

fun isObserve :: "effect \<Rightarrow> bool" where
  "isObserve (DurationObserve m p c) = True"
| "isObserve e = False"

fun isClose :: "effect \<Rightarrow> bool" where
  "isClose (SegmentClose low high) = True"
| "isClose e = False"

fun isCounter :: "effect \<Rightarrow> bool" where
  "isCounter ReplicatedSegmentsInc = True"
| "isCounter (ReplicatedBytesAdd n) = True"
| "isCounter e = False"

fun isClientDo :: "effect \<Rightarrow> bool" where
  "isClientDo (ClientDo req) = True"
| "isClientDo e = False"

subsection \<open>A concrete node\<close>

text \<open>
  One instance of the collaborators, on which the theorems below are exercised: query
  parameters are the value of \<^verbatim>\<open>q\<close>, URLs have the form \<^verbatim>\<open>http://host/path?query\<close>,
  a peer's answer carries the parameters it was asked with, and the peer at
  \<^verbatim>\<open>10.0.0.2:7650\<close> refuses connections.
\<close>

text \<open>
  Modelled from the spec: \<^verbatim>\<open>QueryResult.Merge\<close> is not in this file. The data model
  has it associative and commutative over the error count and the matched totals, and
  failing on structurally incompatible results (mismatched parameters).
\<close>

definition Merge_spec :: "'q QueryResult \<Rightarrow> 'q QueryResult \<Rightarrow> string + 'q QueryResult" where
  "Merge_spec x y =
     (if Params x \<noteq> Params y then Inl ''mismatched params''
      else Inr (x\<lparr>Matched := Matched x + Matched y,
                  ErrorCount := ErrorCount x + ErrorCount y,
                  Records := Records x @ Records y\<rparr>))"

definition node_Parse :: "string \<Rightarrow> string + URL" where
  "node_Parse s =
     (if take 7 s = ''http://'' then
        (let rest = drop 7 s;
             host = takeWhile (\<lambda>c. c \<noteq> CHR ''/'' \<and> c \<noteq> CHR ''?'') rest;
             tail = dropWhile (\<lambda>c. c \<noteq> CHR ''/'' \<and> c \<noteq> CHR ''?'') rest
         in if host = [] \<or> CHR '' '' \<in> set host then Inl ''invalid host''
            else Inr \<lparr>Scheme = ''http'', Host = host,
                      Path = takeWhile (\<lambda>c. c \<noteq> CHR ''?'') tail,
                      RawQuery = drop 1 (dropWhile (\<lambda>c. c \<noteq> CHR ''?'') tail)\<rparr>)
      else Inl ''unsupported URL'')"

definition node_String :: "URL \<Rightarrow> string" where
  "node_String u =
     (if Scheme u = [] then [] else Scheme u @ ''://'' @ Host u) @ Path u @
     (if RawQuery u = [] then [] else CHR ''?'' # RawQuery u)"

definition node_ParseQuery :: "string \<Rightarrow> Values" where
  "node_ParseQuery raw = (if take 2 raw = ''q='' then [(''q'', [drop 2 raw])] else [])"

definition node_MakeQueryParams :: "Values \<Rightarrow> string + string" where
  "node_MakeQueryParams vs =
     (case map_of vs ''q'' of
        Some [v] \<Rightarrow> if v = [] then Inl ''empty q'' else Inr v
      | _ \<Rightarrow> Inl ''missing q'')"

definition node_mergeRecords :: "string \<Rightarrow> ULID \<times> ULID \<times> 64 word \<times> string option" where
  "node_mergeRecords b =
     (if b = [] then (0, 0, 0, None)
      else if b = ''corrupt'' then (1, 1, 7, Some ''short read'')
      else (1, 2, of_nat (length b), None))"

definition node_Do :: "nat \<Rightarrow> Request \<Rightarrow> response" where
  "node_Do i req =
     (if Host (URL req) = ''10.0.0.2:7650'' then Failed ''connection refused''
      else Answered \<lparr>StatusCode = 200, RespBody = ''error''\<rparr>)"

definition node_DecodeFrom :: "Response \<Rightarrow> string QueryResult" where
  "node_DecodeFrom resp =
     \<lparr>Params = RespBody resp, Matched = 1, ErrorCount = 0, Duration = [],
      Records = [RespBody resp]\<rparr>"

definition node :: "string API" where
  "node =
     \<lparr>peer_Current = [''10.0.0.1:7650'', ''10.0.0.2:7650''],
      peer_State = Inr ''{}'',
      log_Query = (\<lambda>q statsOnly. Inr \<lparr>Params = q, Matched = 1, ErrorCount = 0,
                                      Duration = ''1ms'', Records = [q]\<rparr>),
      log_Stream = (\<lambda>q. [Record q, Done]),
      log_Create = None,
      segment_Close = (\<lambda>low high. None),
      mergeRecords = node_mergeRecords,
      MakeQueryParams = node_MakeQueryParams,
      EncodeTo = (\<lambda>q vs. (''q'', [q]) # vs),
      Merge = Merge_spec,
      DecodeFrom = node_DecodeFrom,
      EncodeResult = (\<lambda>res. ([(''X-Error-Count'', Itoa (sint (ErrorCount res)))],
                              concat (Records res))),
      url_Parse = node_Parse,
      url_String = node_String,
      url_ParseQuery = node_ParseQuery,
      redirect_page = (\<lambda>r url c. (url, ''Temporary Redirect'')),
      client_Do = node_Do,
      arrival = rev,
      since = ''2ms'',
      stream_Execute = (\<lambda>urlOf. [Record ''one'', Done])\<rparr>"

text \<open>The concrete node receiving a batch of \<open>2^53 + 1\<close> bytes.\<close>

definition flooded :: "string API" where
  "flooded = node\<lparr>mergeRecords := (\<lambda>b. (1, 2, 9007199254740993, None))\<rparr>"

definition peerQuery :: "string \<Rightarrow> string \<Rightarrow> Request" where
  "peerQuery method host =
     \<lparr>Method = method,
      URL = \<lparr>Scheme = ''http'', Host = host, Path = ''/store/_query'', RawQuery = []\<rparr>,
      Body = []\<rparr>"

definition fresh :: serverResponse where
  "fresh = \<lparr>isFlusher = True, wroteHeader = None, header = [], written = [], flushed = 0\<rparr>"

definition request :: "string \<Rightarrow> string \<Rightarrow> string \<Rightarrow> string \<Rightarrow> Request" where
  "request m p q b =
     \<lparr>Method = m, URL = \<lparr>Scheme = [], Host = [], Path = p, RawQuery = q\<rparr>, Body = b\<rparr>"

subsection \<open>What the intercepting writer captures\<close>

text \<open>
  An intercepting writer has captured the response when its \<open>code\<close> is the status the
  client receives; an outcome is settled when its writer has, and the handler itself
  has observed no duration.
\<close>

fun captured :: "ResponseWriter \<Rightarrow> bool" where
  "captured (interceptingWriter c w) = (c = finalStatus (sent w))"
| "captured (Server s) = False"

definition settled :: "outcome \<Rightarrow> bool" where
  "settled out = (captured (wr out) \<and> filter isObserve (effects out) = [])"

subsection \<open>The gather, in the words of the specification\<close>




fun mergeAll :: "'q API \<Rightarrow> 'q QueryResult \<Rightarrow> 'q QueryResult list \<Rightarrow> string + 'q QueryResult" where
  "mergeAll a result [] = Inr result"
| "mergeAll a result (p # ps) =
     (case Merge a result p of
        Inl e \<Rightarrow> Inl (''merging results: '' @ e)
      | Inr result' \<Rightarrow> mergeAll a result' ps)"




section \<open>Properties\<close>

subsection \<open>Writers\<close>

lemma sent_WriteHeader: "sent (WriteHeader c w) = srv_WriteHeader c (sent w)"
  by (induction w) simp_all

lemma sent_Write: "sent (Write b w) = srv_Write b (sent w)"
  by (induction w) simp_all

lemma sent_Header_Set: "sent (Header_Set k v w) = srv_Header_Set k v (sent w)"
  by (induction w) simp_all

lemma http_Error_intercepting:
  "http_Error (interceptingWriter old w) msg c = interceptingWriter c (http_Error w msg c)"
  by (simp add: http_Error_def Fprintln_def)

lemma Fprintln_intercepting:
  "Fprintln (interceptingWriter c w) s = interceptingWriter c (Fprintln w s)"
  by (simp add: Fprintln_def)

lemma status_Fprintln:
  "wroteHeader (sent w) = None \<Longrightarrow> wroteHeader (sent (Fprintln w s)) = Some StatusOK"
  by (simp add: Fprintln_def sent_Write srv_Write_def srv_WriteHeader_def Let_def)

lemma written_Fprintln: "written (sent (Fprintln w s)) = written (sent w) @ s @ newline"
  by (simp add: Fprintln_def sent_Write srv_Write_def srv_WriteHeader_def Let_def)

lemma status_http_Error:
  "wroteHeader (sent w) = None \<Longrightarrow> wroteHeader (sent (http_Error w msg c)) = Some c"
  by (simp add: http_Error_def Fprintln_def sent_Write sent_WriteHeader sent_Header_Set
      srv_Write_def srv_WriteHeader_def srv_Header_Set_def Let_def)

lemma written_http_Error:
  "written (sent (http_Error w msg c)) = written (sent w) @ msg @ newline"
  by (simp add: http_Error_def Fprintln_def sent_Write sent_WriteHeader sent_Header_Set
      srv_Write_def srv_WriteHeader_def srv_Header_Set_def Let_def)

lemmas writer_eval =
  http_Error_def Fprintln_def srv_Write_def srv_WriteHeader_def srv_Header_Set_def
  srv_Flush_def Let_def newline_def

subsection \<open>Replication\<close>

text \<open>
  C1. When \<^verbatim>\<open>mergeRecords\<close> returns an error after the segment was created, whatever
  it had read and written by then (\<open>low\<close>, \<open>high\<close> and \<open>n\<close> are arbitrary), the handler
  calls \<^verbatim>\<open>Delete\<close> on the segment and never \<^verbatim>\<open>Close\<close>, touches no counter, and answers
  500 with the error's text.
\<close>

theorem handleReplicate_failure_deletes:
  assumes "log_Create a = None"
    and "mergeRecords a (Body r) = (low, high, n, Some e)"
    and "wroteHeader (sent w) = None"
  shows "effects (handleReplicate a w r) =
           [LogCreate, MergeRecords (Body r), SegmentDelete, BodyClose]
       \<and> SegmentDelete \<in> set (effects (handleReplicate a w r))
       \<and> filter isClose (effects (handleReplicate a w r)) = []
       \<and> wroteHeader (sent (wr (handleReplicate a w r))) = Some StatusInternalServerError
       \<and> written (sent (wr (handleReplicate a w r))) = written (sent w) @ e @ newline
       \<and> \<not> panicked (handleReplicate a w r)"
  using assms
  by (simp add: handleReplicate_def respond_def status_http_Error written_http_Error)

theorem handleReplicate_failure_deletes_witness:
  "effects (handleReplicate node (Server fresh) (request ''POST'' ''/replicate'' [] ''corrupt'')) =
     [LogCreate, MergeRecords ''corrupt'', SegmentDelete, BodyClose]
   \<and> wroteHeader (sent (wr (handleReplicate node (Server fresh)
        (request ''POST'' ''/replicate'' [] ''corrupt'')))) = Some 500
   \<and> written (sent (wr (handleReplicate node (Server fresh)
        (request ''POST'' ''/replicate'' [] ''corrupt'')))) = ''short read'' @ newline"
  using handleReplicate_failure_deletes [of node "request ''POST'' ''/replicate'' [] ''corrupt''"
      1 1 7 "''short read''" "Server fresh"]
  by (simp add: node_def node_mergeRecords_def request_def fresh_def
      StatusInternalServerError_def)

text \<open>
  C7. When \<^verbatim>\<open>mergeRecords\<close> returns no error and \<open>n = 0\<close>, the handler deletes the
  segment, never calls \<^verbatim>\<open>Close\<close>, touches no counter, and answers \<^verbatim>\<open>No records\<close> with
  status 200.
\<close>

theorem handleReplicate_empty_push:
  assumes "log_Create a = None"
    and "mergeRecords a (Body r) = (low, high, 0, None)"
    and "wroteHeader (sent w) = None"
  shows "effects (handleReplicate a w r) =
           [LogCreate, MergeRecords (Body r), SegmentDelete, BodyClose]
       \<and> filter isClose (effects (handleReplicate a w r)) = []
       \<and> filter isCounter (effects (handleReplicate a w r)) = []
       \<and> wr (handleReplicate a w r) = Fprintln w ''No records''
       \<and> wroteHeader (sent (wr (handleReplicate a w r))) = Some StatusOK
       \<and> written (sent (wr (handleReplicate a w r))) = written (sent w) @ ''No records'' @ newline"
  using assms
  by (simp add: handleReplicate_def respond_def status_Fprintln written_Fprintln)

theorem handleReplicate_empty_push_witness:
  "effects (handleReplicate node (Server fresh) (request ''POST'' ''/replicate'' [] [])) =
     [LogCreate, MergeRecords [], SegmentDelete, BodyClose]
   \<and> wroteHeader (sent (wr (handleReplicate node (Server fresh)
        (request ''POST'' ''/replicate'' [] [])))) = Some 200
   \<and> written (sent (wr (handleReplicate node (Server fresh)
        (request ''POST'' ''/replicate'' [] [])))) = ''No records'' @ newline"
  using handleReplicate_empty_push [of node "request ''POST'' ''/replicate'' [] []" 0 0
      "Server fresh"]
  by (simp add: node_def node_mergeRecords_def request_def fresh_def StatusOK_def writer_eval)

lemma float64_9007199254740993: "float64 9007199254740993 = 9007199254740992"
  by (simp add: float64_def Let_def)

lemma float64_2_53: "float64 (2 ^ 53) = 2 ^ 53"
  by (simp add: float64_def Let_def)

lemma float64_exact:
  assumes "0 \<le> i" and "i \<le> 2 ^ 53"
  shows "float64 i = i"
proof (cases "i < 2 ^ 53")
  case True
  with assms(1) have "nat \<bar>i\<bar> < 2 ^ 53"
    by simp
  then show ?thesis
    by (simp add: float64_def)
next
  case False
  with assms(2) have "i = 2 ^ 53"
    by simp
  then show ?thesis
    by (simp only: float64_2_53)
qed

text \<open>
  C8, as the code has it. When \<^verbatim>\<open>mergeRecords\<close> returns \<open>n > 0\<close> and no error, the
  handler calls \<^verbatim>\<open>Close(low, high)\<close> with the watermarks \<^verbatim>\<open>mergeRecords\<close> returned. If
  \<^verbatim>\<open>Close\<close> succeeds, it increments the segment counter once, adds \<^verbatim>\<open>float64(n)\<close> to the
  byte counter, which is \<open>n\<close> itself whenever \<open>n \<le> 2^53\<close>, and answers \<^verbatim>\<open>OK\<close>; if
  \<^verbatim>\<open>Close\<close> fails, it answers 500, does not delete the segment and touches no counter.
\<close>

theorem handleReplicate_commit:
  assumes "log_Create a = None"
    and "mergeRecords a (Body r) = (low, high, n, None)"
    and "0 < sint n"
    and "wroteHeader (sent w) = None"
  shows "case segment_Close a low high of
           None \<Rightarrow>
             effects (handleReplicate a w r) =
               [LogCreate, MergeRecords (Body r), SegmentClose low high,
                ReplicatedSegmentsInc, ReplicatedBytesAdd (float64 (sint n)), BodyClose]
             \<and> (sint n \<le> 2 ^ 53 \<longrightarrow> float64 (sint n) = sint n)
             \<and> wroteHeader (sent (wr (handleReplicate a w r))) = Some StatusOK
             \<and> written (sent (wr (handleReplicate a w r))) = written (sent w) @ ''OK'' @ newline
             \<and> \<not> panicked (handleReplicate a w r)
         | Some e \<Rightarrow>
             effects (handleReplicate a w r) =
               [LogCreate, MergeRecords (Body r), SegmentClose low high, BodyClose]
             \<and> SegmentDelete \<notin> set (effects (handleReplicate a w r))
             \<and> filter isCounter (effects (handleReplicate a w r)) = []
             \<and> wroteHeader (sent (wr (handleReplicate a w r))) = Some StatusInternalServerError
             \<and> written (sent (wr (handleReplicate a w r))) = written (sent w) @ e @ newline"
proof (cases "segment_Close a low high")
  case None
  have exact: "sint n \<le> 2 ^ 53 \<longrightarrow> float64 (sint n) = sint n"
    using assms(3) by (simp add: float64_exact)
  from assms(3) have "n \<noteq> 0"
    by auto
  with assms None have
    "effects (handleReplicate a w r) =
       [LogCreate, MergeRecords (Body r), SegmentClose low high,
        ReplicatedSegmentsInc, ReplicatedBytesAdd (float64 (sint n)), BodyClose]"
    and "wroteHeader (sent (wr (handleReplicate a w r))) = Some StatusOK"
    and "written (sent (wr (handleReplicate a w r))) = written (sent w) @ ''OK'' @ newline"
    and "\<not> panicked (handleReplicate a w r)"
    by (simp_all add: handleReplicate_def respond_def status_Fprintln written_Fprintln)
  with None exact show ?thesis
    by simp
next
  case (Some e)
  from assms(3) have "n \<noteq> 0"
    by auto
  with assms Some show ?thesis
    by (simp add: handleReplicate_def respond_def status_http_Error written_http_Error)
qed

theorem handleReplicate_commit_witness:
  "effects (handleReplicate node (Server fresh) (request ''POST'' ''/replicate'' [] ''abc'')) =
     [LogCreate, MergeRecords ''abc'', SegmentClose 1 2, ReplicatedSegmentsInc,
      ReplicatedBytesAdd 3, BodyClose]
   \<and> written (sent (wr (handleReplicate node (Server fresh)
        (request ''POST'' ''/replicate'' [] ''abc'')))) = ''OK'' @ newline
   \<and> effects (handleReplicate (node\<lparr>segment_Close := \<lambda>low high. Some ''disk full''\<rparr>)
        (Server fresh) (request ''POST'' ''/replicate'' [] ''abc'')) =
     [LogCreate, MergeRecords ''abc'', SegmentClose 1 2, BodyClose]
   \<and> wroteHeader (sent (wr (handleReplicate
        (node\<lparr>segment_Close := \<lambda>low high. Some ''disk full''\<rparr>)
        (Server fresh) (request ''POST'' ''/replicate'' [] ''abc'')))) = Some 500"
proof -
  have three: "sint (3 :: 64 word) = 3"
    by simp
  show ?thesis
    using handleReplicate_commit [of node "request ''POST'' ''/replicate'' [] ''abc''" 1 2 3
        "Server fresh"]
      handleReplicate_commit [of "node\<lparr>segment_Close := \<lambda>low high. Some ''disk full''\<rparr>"
        "request ''POST'' ''/replicate'' [] ''abc''" 1 2 3 "Server fresh"]
    by (simp add: node_def node_mergeRecords_def request_def fresh_def
        StatusInternalServerError_def three)
qed

text \<open>
  C8 as stated fails beyond \<open>2^53\<close>: for \<open>n = 2^53 + 1\<close> the byte counter is raised by
  \<open>2^53\<close>, one less than \<open>n\<close>.
\<close>

theorem handleReplicate_bytes_counter_counterexample:
  "sint (9007199254740993 :: 64 word) = 9007199254740993
   \<and> effects (handleReplicate flooded (Server fresh) (request ''POST'' ''/replicate'' [] ''abc'')) =
     [LogCreate, MergeRecords ''abc'', SegmentClose 1 2, ReplicatedSegmentsInc,
      ReplicatedBytesAdd 9007199254740992, BodyClose]"
  by (simp add: handleReplicate_def flooded_def node_def request_def respond_def
      float64_9007199254740993)

subsection \<open>The empty peer directory\<close>

text \<open>
  C3. When the snapshot of store peers is empty, the user-facing query handler answers
  503 and starts no peer request: it has no effect on any collaborator.
\<close>

theorem handleUserQuery_no_peers:
  assumes "peer_Current a = []"
    and "wroteHeader (sent w) = None"
  shows "effects (handleUserQuery a w r statsOnly) = []
       \<and> filter isClientDo (effects (handleUserQuery a w r statsOnly)) = []
       \<and> wroteHeader (sent (wr (handleUserQuery a w r statsOnly))) =
           Some StatusServiceUnavailable
       \<and> written (sent (wr (handleUserQuery a w r statsOnly))) =
           written (sent w) @ ''no store nodes available'' @ newline"
  using assms
  by (simp add: handleUserQuery_def respond_def status_http_Error written_http_Error)

theorem handleUserQuery_no_peers_witness:
  "effects (handleUserQuery (node\<lparr>peer_Current := []\<rparr>) (Server fresh)
      (request ''GET'' ''/query'' ''q=error'' []) False) = []
   \<and> wroteHeader (sent (wr (handleUserQuery (node\<lparr>peer_Current := []\<rparr>) (Server fresh)
        (request ''GET'' ''/query'' ''q=error'' []) False))) = Some 503"
  using handleUserQuery_no_peers [of "node\<lparr>peer_Current := []\<rparr>" "Server fresh"
      "request ''GET'' ''/query'' ''q=error'' []" False]
  by (simp add: fresh_def StatusServiceUnavailable_def)

text \<open>
  C10. On GET and HEAD \<^verbatim>\<open>/query\<close> with an empty snapshot of store peers,
  \<^verbatim>\<open>ServeHTTP\<close> answers 503 whatever the query parameters are: the outcome is the same
  for every \<^verbatim>\<open>MakeQueryParams\<close>, so also for one that rejects the parameters, and the
  400 of the validation is never sent.
\<close>

theorem ServeHTTP_query_unavailable_first:
  assumes "Method r = ''GET'' \<or> Method r = ''HEAD''"
    and "Path (URL r) = APIPathUserQuery"
    and "peer_Current a = []"
    and "wroteHeader (sent w) = None"
  shows "\<exists>out. ServeHTTP a w r = Some out
           \<and> ServeHTTP (a\<lparr>MakeQueryParams := f\<rparr>) w r = Some out
           \<and> code (wr out) = StatusServiceUnavailable
           \<and> wroteHeader (sent (wr out)) = Some StatusServiceUnavailable
           \<and> wroteHeader (sent (wr out)) \<noteq> Some StatusBadRequest"
  using assms
  by (auto simp add: ServeHTTP_def route_def handleUserQuery_def respond_def
      http_Error_intercepting status_http_Error APIPathUserQuery_def
      StatusServiceUnavailable_def StatusBadRequest_def)

theorem ServeHTTP_query_unavailable_first_witness:
  "MakeQueryParams node (URL_Query node (URL (request ''GET'' ''/query'' ''x=1'' []))) =
     Inl ''missing q''
   \<and> map_option (\<lambda>out. wroteHeader (sent (wr out)))
       (ServeHTTP (node\<lparr>peer_Current := []\<rparr>) (Server fresh)
         (request ''GET'' ''/query'' ''x=1'' [])) = Some (Some 503)"
  using ServeHTTP_query_unavailable_first [of "request ''GET'' ''/query'' ''x=1'' []"
      "node\<lparr>peer_Current := []\<rparr>" "Server fresh" node_MakeQueryParams]
  by (auto simp add: node_def request_def fresh_def APIPathUserQuery_def
      StatusServiceUnavailable_def URL_Query_def node_ParseQuery_def
      node_MakeQueryParams_def)

subsection \<open>Streaming through the intercepting writer\<close>

text \<open>
  Called on the server's own writer, a stream handler streams when that writer is a
  \<^verbatim>\<open>Flusher\<close>: on the concrete node the internal stream writes its record.
\<close>

lemma handleInternalStream_direct:
  "map_option (\<lambda>out. (wroteHeader (sent (wr out)), written (sent (wr out)), flushed (sent (wr out))))
     (handleInternalStream node (Server fresh) (request ''GET'' ''/_stream'' ''q=error'' []))
   = Some (Some 200, ''error'' @ newline, 1)"
  by (simp add: handleInternalStream_def node_def URL_Query_def node_ParseQuery_def
      node_MakeQueryParams_def request_def fresh_def respond_def StatusOK_def writer_eval)

text \<open>
  C4. \<^verbatim>\<open>ServeHTTP\<close> hands every handler the \<^verbatim>\<open>interceptingWriter\<close>, whose method set
  has no \<^verbatim>\<open>Flush\<close>. So for GET \<^verbatim>\<open>/stream\<close> and GET \<^verbatim>\<open>/_stream\<close> with valid query
  parameters the type assertion fails whatever the underlying writer can do, also when
  it is a \<^verbatim>\<open>Flusher\<close>: the answer is 412, and no record is written or flushed.
\<close>

theorem ServeHTTP_stream_precondition_failed:
  assumes "Method r = ''GET''"
    and "Path (URL r) = APIPathUserStream \<or> Path (URL r) = APIPathInternalStream"
    and "MakeQueryParams a (URL_Query a (URL r)) = Inr query"
    and "wroteHeader (sent w) = None"
  shows "\<exists>out. ServeHTTP a w r = Some out
           \<and> wroteHeader (sent (wr out)) = Some StatusPreconditionFailed
           \<and> written (sent (wr out)) = written (sent w) @ ''can't stream to your client'' @ newline
           \<and> flushed (sent (wr out)) = flushed (sent w)"
  using assms
  by (auto simp add: ServeHTTP_def route_def handleUserStream_def handleInternalStream_def
      respond_def http_Error_intercepting status_http_Error written_http_Error
      APIPathUserQuery_def APIPathInternalQuery_def APIPathUserStream_def
      APIPathInternalStream_def
      http_Error_def Fprintln_def sent_Write sent_WriteHeader sent_Header_Set
      srv_Write_def srv_WriteHeader_def srv_Header_Set_def Let_def)

theorem ServeHTTP_stream_precondition_failed_witness:
  "assertFlusher (Server fresh)
   \<and> map_option (\<lambda>out. (wroteHeader (sent (wr out)), written (sent (wr out))))
       (ServeHTTP node (Server fresh) (request ''GET'' ''/stream'' ''q=error'' []))
     = Some (Some 412, ''can't stream to your client'' @ newline)
   \<and> map_option (\<lambda>out. (wroteHeader (sent (wr out)), written (sent (wr out))))
       (ServeHTTP node (Server fresh) (request ''GET'' ''/_stream'' ''q=error'' []))
     = Some (Some 412, ''can't stream to your client'' @ newline)"
  using ServeHTTP_stream_precondition_failed [of "request ''GET'' ''/stream'' ''q=error'' []"
      node "''error''" "Server fresh"]
    ServeHTTP_stream_precondition_failed [of "request ''GET'' ''/_stream'' ''q=error'' []"
      node "''error''" "Server fresh"]
  by (auto simp add: node_def request_def fresh_def URL_Query_def node_ParseQuery_def
      node_MakeQueryParams_def APIPathUserStream_def APIPathInternalStream_def
      StatusPreconditionFailed_def)

subsection \<open>The URLs of the internal requests\<close>

text \<open>
  C5. The internal-query requests and the internal-stream URLs are built from
  \<^verbatim>\<open>u.String()\<close> of the URL parsed from \<^verbatim>\<open>http://host/store/_query\<close> (or
  \<^verbatim>\<open>/_stream\<close>); \<^verbatim>\<open>EncodeTo\<close> fills the map that \<^verbatim>\<open>u.Query()\<close> returned, which is
  dropped. So they are the same for all query parameters and for every \<^verbatim>\<open>EncodeTo\<close>:
  they carry no encoding of the parameters.
\<close>

theorem internal_urls_ignore_query:
  "buildRequests (a\<lparr>EncodeTo := f\<rparr>) method query' members = buildRequests a method query members
   \<and> streamURL (a\<lparr>EncodeTo := f\<rparr>) query' addr = streamURL a query addr"
proof
  show "buildRequests (a\<lparr>EncodeTo := f\<rparr>) method query' members =
        buildRequests a method query members"
    by (induction members) (simp_all add: http_NewRequest_def Let_def split: sum.split)
  show "streamURL (a\<lparr>EncodeTo := f\<rparr>) query' addr = streamURL a query addr"
    by (simp add: streamURL_def Let_def split: sum.split)
qed

text \<open>On the concrete node, for any parameters: no query string.\<close>

lemma node_requests:
  "buildRequests node method query [''10.0.0.1:7650'', ''10.0.0.2:7650''] =
     Inr [peerQuery method ''10.0.0.1:7650'', peerQuery method ''10.0.0.2:7650'']"
  by (simp add: node_def node_Parse_def node_String_def http_NewRequest_def
      APIPathInternalQuery_def peerQuery_def Let_def)

lemma node_streamURL:
  "streamURL node ''error'' ''10.0.0.1:7650'' = Some ''http://10.0.0.1:7650/store/_stream''"
  by (simp add: streamURL_def node_def node_Parse_def node_String_def
      APIPathInternalStream_def Let_def)

subsection \<open>The duration observation\<close>

lemma fold_Header_Set_intercepting:
  "fold (\<lambda>p. Header_Set (fst p) (snd p)) hs (interceptingWriter c w) =
   interceptingWriter c (fold (\<lambda>p. Header_Set (fst p) (snd p)) hs w)"
  by (induction hs arbitrary: w) simp_all

lemma status_Header_Set: "wroteHeader (sent (Header_Set k v w)) = wroteHeader (sent w)"
  by (simp add: sent_Header_Set srv_Header_Set_def)

lemma status_fold_Header_Set:
  "wroteHeader (sent (fold (\<lambda>p. Header_Set (fst p) (snd p)) hs w)) = wroteHeader (sent w)"
  by (induction hs arbitrary: w) (simp_all add: status_Header_Set)

lemma finalStatus_Write:
  "wroteHeader (sent w) = None \<Longrightarrow> finalStatus (sent (Write b w)) = StatusOK"
  by (simp add: finalStatus_def sent_Write srv_Write_def srv_WriteHeader_def Let_def)

lemma finalStatus_unwritten: "wroteHeader (sent w) = None \<Longrightarrow> finalStatus (sent w) = StatusOK"
  by (simp add: finalStatus_def)

lemma captured_http_Error:
  "wroteHeader (sent w) = None \<Longrightarrow> captured (http_Error (interceptingWriter old w) msg c)"
  by (simp add: http_Error_intercepting finalStatus_def status_http_Error)

lemma captured_Fprintln:
  "wroteHeader (sent w) = None \<Longrightarrow> captured (Fprintln (interceptingWriter StatusOK w) s)"
  by (simp add: Fprintln_intercepting finalStatus_def status_Fprintln)

lemma captured_EncodeTo:
  "wroteHeader (sent w) = None \<Longrightarrow>
   captured (QueryResult_EncodeTo a result (interceptingWriter StatusOK w))"
  by (simp add: QueryResult_EncodeTo_def split_def Let_def fold_Header_Set_intercepting
      finalStatus_Write status_fold_Header_Set)

lemma captured_Redirect:
  "wroteHeader (sent w) = None \<Longrightarrow>
   captured (http_Redirect a (interceptingWriter StatusOK w) r url c)"
  by (simp add: http_Redirect_def split_def Let_def Fprintln_def finalStatus_def sent_Write
      sent_WriteHeader sent_Header_Set srv_Write_def srv_WriteHeader_def srv_Header_Set_def)

lemma no_Observe_ClientDo: "filter isObserve (map ClientDo requests) = []"
  by (induction requests) simp_all

lemma settled_handleUserQuery:
  "wroteHeader (sent w) = None \<Longrightarrow>
   settled (handleUserQuery a (interceptingWriter StatusOK w) r statsOnly)"
  by (simp add: settled_def handleUserQuery_def respond_def Let_def captured_http_Error
      captured_EncodeTo no_Observe_ClientDo split: sum.split)

lemma settled_handleInternalQuery:
  "wroteHeader (sent w) = None \<Longrightarrow>
   settled (handleInternalQuery a (interceptingWriter StatusOK w) r statsOnly)"
  by (simp add: settled_def handleInternalQuery_def respond_def captured_http_Error
      captured_EncodeTo split: sum.split)

lemma settled_handleUserStream:
  "wroteHeader (sent w) = None \<Longrightarrow>
   \<exists>out. handleUserStream a (interceptingWriter StatusOK w) r = Some out \<and> settled out"
  by (simp add: settled_def handleUserStream_def respond_def captured_http_Error
      split: sum.split)

lemma settled_handleInternalStream:
  "wroteHeader (sent w) = None \<Longrightarrow>
   \<exists>out. handleInternalStream a (interceptingWriter StatusOK w) r = Some out \<and> settled out"
  by (simp add: settled_def handleInternalStream_def respond_def captured_http_Error
      split: sum.split)

lemma settled_handleReplicate:
  "wroteHeader (sent w) = None \<Longrightarrow>
   settled (handleReplicate a (interceptingWriter StatusOK w) r)"
  by (simp add: settled_def handleReplicate_def respond_def split_def Let_def
      captured_http_Error captured_Fprintln finalStatus_unwritten split: option.split)

lemma settled_handleClusterState:
  "wroteHeader (sent w) = None \<Longrightarrow>
   settled (handleClusterState a (interceptingWriter StatusOK w) r)"
  by (simp add: settled_def handleClusterState_def respond_def captured_http_Error
      finalStatus_Write status_Header_Set split: sum.split)

lemma settled_route:
  assumes "wroteHeader (sent w) = None"
  shows "\<exists>out r'. route a (interceptingWriter StatusOK w) r = (Some out, r') \<and> settled out
           \<and> Method r' = Method r
           \<and> Path (URL r') =
               (if Method r = ''GET'' \<and> Path (URL r) = ''/'' then APIPathUserQuery
                else Path (URL r))"
proof -
  obtain us where us: "handleUserStream a (interceptingWriter StatusOK w) r = Some us"
    "settled us"
    using settled_handleUserStream [OF assms] by blast
  obtain ins where ins: "handleInternalStream a (interceptingWriter StatusOK w) r = Some ins"
    "settled ins"
    using settled_handleInternalStream [OF assms] by blast
  have redirect: "settled (respond (http_Redirect a (interceptingWriter StatusOK w) r' url c) [])"
    for r' url c
    using assms by (simp add: settled_def respond_def captured_Redirect)
  have notFound: "settled (respond (http_NotFound (interceptingWriter StatusOK w)) [])"
    using assms by (simp add: settled_def respond_def http_NotFound_def captured_http_Error)
  show ?thesis
    unfolding route_def Let_def
    using assms us ins redirect notFound
    by (simp add: settled_handleUserQuery settled_handleInternalQuery
        settled_handleReplicate settled_handleClusterState)
qed

text \<open>
  C9, as the code has it. Every request served on a writer that has sent nothing yet
  returns, and its outcome holds exactly one duration observation. Its labels are the
  request's method, the value of \<^verbatim>\<open>r.URL.Path\<close> when the handler has returned, and the
  decimal form of the intercepting writer's \<open>code\<close>, which is the status the client
  receives (200 when none was written). The path label is the request's path on every
  route but GET \<^verbatim>\<open>/\<close>, where the redirect branch has assigned \<^verbatim>\<open>/query\<close> to
  \<^verbatim>\<open>r.URL.Path\<close> before the deferred observation reads it.
\<close>

theorem ServeHTTP_observes_once:
  assumes "wroteHeader (sent w) = None"
  shows "\<exists>out c w'. ServeHTTP a w r = Some out
           \<and> wr out = interceptingWriter c w'
           \<and> c = finalStatus (sent w')
           \<and> filter isObserve (effects out) =
               [DurationObserve (Method r)
                  (if Method r = ''GET'' \<and> Path (URL r) = ''/'' then APIPathUserQuery
                   else Path (URL r))
                  (Itoa c)]"
proof -
  obtain out r' where out: "route a (interceptingWriter StatusOK w) r = (Some out, r')"
    "settled out" "Method r' = Method r"
    "Path (URL r') =
       (if Method r = ''GET'' \<and> Path (URL r) = ''/'' then APIPathUserQuery else Path (URL r))"
    using settled_route [OF assms] by blast
  from \<open>settled out\<close> obtain c w' where c: "wr out = interceptingWriter c w'"
    "c = finalStatus (sent w')"
    by (cases "wr out") (simp_all add: settled_def)
  from \<open>settled out\<close> have quiet: "filter isObserve (effects out) = []"
    by (simp add: settled_def)
  have "ServeHTTP a w r =
          Some (out\<lparr>effects := effects out @
            [DurationObserve (Method r') (Path (URL r')) (Itoa (code (wr out)))]\<rparr>)"
    by (simp add: ServeHTTP_def out(1))
  with out(3,4) c quiet show ?thesis
    by simp
qed

theorem ServeHTTP_observes_once_witness:
  "wroteHeader (sent (Server fresh)) = None
   \<and> map_option (filter isObserve \<circ> effects)
       (ServeHTTP node (Server fresh) (request ''POST'' ''/replicate'' [] ''abc''))
     = Some [DurationObserve ''POST'' ''/replicate'' ''200'']
   \<and> map_option (finalStatus \<circ> sent \<circ> wr)
       (ServeHTTP node (Server fresh) (request ''POST'' ''/replicate'' [] ''abc''))
     = Some 200"
proof -
  have unsent: "wroteHeader (sent (Server fresh)) = None"
    by (simp add: fresh_def)
  obtain out c w' where out:
    "ServeHTTP node (Server fresh) (request ''POST'' ''/replicate'' [] ''abc'') = Some out"
    "wr out = interceptingWriter c w'" "c = finalStatus (sent w')"
    "filter isObserve (effects out) =
       [DurationObserve (Method (request ''POST'' ''/replicate'' [] ''abc''))
          (if Method (request ''POST'' ''/replicate'' [] ''abc'') = ''GET''
              \<and> Path (URL (request ''POST'' ''/replicate'' [] ''abc'')) = ''/''
           then APIPathUserQuery else Path (URL (request ''POST'' ''/replicate'' [] ''abc'')))
          (Itoa c)]"
    using ServeHTTP_observes_once [OF unsent, of node "request ''POST'' ''/replicate'' [] ''abc''"]
    by blast
  have "map_option wr (ServeHTTP node (Server fresh) (request ''POST'' ''/replicate'' [] ''abc''))
        = Some (interceptingWriter 200 (Fprintln (Server fresh) ''OK''))"
    by (simp add: ServeHTTP_def route_def handleReplicate_def node_def node_mergeRecords_def
        request_def respond_def Fprintln_def APIPathUserQuery_def APIPathInternalQuery_def
        APIPathUserStream_def APIPathInternalStream_def APIPathReplicate_def StatusOK_def)
  with out(1,2) have "c = 200" "w' = Fprintln (Server fresh) ''OK''"
    by simp_all
  with out unsent show ?thesis
    by (simp add: request_def Itoa_def finalStatus_def fresh_def writer_eval StatusOK_def
        digit_def)
qed

text \<open>
  C9 as stated fails for GET \<^verbatim>\<open>/\<close>: the request's path is \<^verbatim>\<open>/\<close>, the observation is
  labelled \<^verbatim>\<open>/query\<close>.
\<close>

theorem ServeHTTP_redirect_label_counterexample:
  "Path (URL (request ''GET'' ''/'' [] [])) = ''/''
   \<and> map_option effects (ServeHTTP node (Server fresh) (request ''GET'' ''/'' [] []))
     = Some [DurationObserve ''GET'' ''/query'' ''307'']"
  by (simp add: ServeHTTP_def route_def http_Redirect_def node_def node_String_def
      request_def respond_def fresh_def Fprintln_def APIPathUserQuery_def
      StatusTemporaryRedirect_def StatusOK_def Itoa_def digit_def Let_def)

subsection \<open>Scatter and gather\<close>





lemma gatherResponses_append:
  "gatherResponses a result (earlier @ later) =
     (case gatherResponses a result earlier of
        Inl e \<Rightarrow> Inl e
      | Inr result' \<Rightarrow> gatherResponses a result' later)"
proof (induction earlier arbitrary: result)
  case Nil
  show ?case by simp
next
  case (Cons x earlier)
  show ?case
  proof (cases x)
    case (Failed e)
    then show ?thesis by (simp add: Cons.IH)
  next
    case (Answered resp)
    then show ?thesis
      by (cases "Merge a result (DecodeFrom a resp)") (simp_all add: Cons.IH)
  qed
qed


lemma mergeAll_spec:
  assumes "Merge a = Merge_spec" and "list_all (\<lambda>p. Params p = Params result) ps"
  shows "mergeAll a result ps =
           Inr (result\<lparr>Matched := Matched result + sum_list (map Matched ps),
                       ErrorCount := ErrorCount result + sum_list (map ErrorCount ps),
                       Records := Records result @ concat (map Records ps)\<rparr>)"
  using assms(2)
  by (induction ps arbitrary: result) (simp_all add: assms(1) Merge_spec_def add.assoc)




text \<open>
  C6. When, somewhere in the arrival order, \<^verbatim>\<open>Merge\<close> of a decoded answer with status
  200 into the aggregate gathered so far returns an error, the handler answers 500 with
  the wrapped error and encodes no result, whatever responses come after it.
\<close>

theorem handleUserQuery_merge_failure_aborts:
  assumes "peer_Current a \<noteq> []"
    and "MakeQueryParams a (URL_Query a (URL r)) = Inr query"
    and "buildRequests a (if statsOnly then ''HEAD'' else ''GET'') query (peer_Current a) =
           Inr requests"
    and "arrival a (map2 (client_Do a) [0..<length requests] requests) =
           earlier @ Answered resp # later"
    and "gatherResponses a
           \<lparr>Params = query, Matched = 0, ErrorCount = 0, Duration = [], Records = []\<rparr> earlier =
           Inr result"
    and "StatusCode resp = StatusOK"
    and "Merge a result (DecodeFrom a resp) = Inl e"
    and "wroteHeader (sent w) = None"
  shows "handleUserQuery a w r statsOnly =
           respond (http_Error w (''merging results: '' @ e) StatusInternalServerError)
             (map ClientDo requests)
       \<and> wroteHeader (sent (wr (handleUserQuery a w r statsOnly))) =
           Some StatusInternalServerError
       \<and> written (sent (wr (handleUserQuery a w r statsOnly))) =
           written (sent w) @ ''merging results: '' @ e @ newline"
proof -
  have "gatherResponses a
          \<lparr>Params = query, Matched = 0, ErrorCount = 0, Duration = [], Records = []\<rparr>
          (earlier @ Answered resp # later) = Inl (''merging results: '' @ e)"
    by (simp add: gatherResponses_append assms(5-7))
  with assms(1-4) have "handleUserQuery a w r statsOnly =
      respond (http_Error w (''merging results: '' @ e) StatusInternalServerError)
        (map ClientDo requests)"
    by (simp add: handleUserQuery_def Let_def)
  with assms(8) show ?thesis
    by (simp add: respond_def status_http_Error written_http_Error)
qed

theorem handleUserQuery_merge_failure_aborts_witness:
  "handleUserQuery node (Server fresh) (request ''GET'' ''/query'' ''q=other'' []) False =
     respond
       (http_Error (Server fresh) ''merging results: mismatched params'' 500)
       [ClientDo (peerQuery ''GET'' ''10.0.0.1:7650''),
        ClientDo (peerQuery ''GET'' ''10.0.0.2:7650'')]
   \<and> wroteHeader (sent (wr (handleUserQuery node (Server fresh)
        (request ''GET'' ''/query'' ''q=other'' []) False))) = Some 500"
proof -
  have peers: "peer_Current node = [''10.0.0.1:7650'', ''10.0.0.2:7650'']"
    by (simp add: node_def)
  then have some: "peer_Current node \<noteq> []"
    by simp
  have params: "MakeQueryParams node
      (URL_Query node (URL (request ''GET'' ''/query'' ''q=other'' []))) = Inr ''other''"
    by (simp add: node_def request_def URL_Query_def node_ParseQuery_def
        node_MakeQueryParams_def)
  have built: "buildRequests node (if False then ''HEAD'' else ''GET'') ''other''
      (peer_Current node) =
      Inr [peerQuery ''GET'' ''10.0.0.1:7650'', peerQuery ''GET'' ''10.0.0.2:7650'']"
    using node_requests [of "''GET''" "''other''"] unfolding peers by (simp only: if_False)
  have arrived: "arrival node (map2 (client_Do node)
        [0..<length [peerQuery ''GET'' ''10.0.0.1:7650'', peerQuery ''GET'' ''10.0.0.2:7650'']]
        [peerQuery ''GET'' ''10.0.0.1:7650'', peerQuery ''GET'' ''10.0.0.2:7650'']) =
      [Failed ''connection refused''] @ Answered \<lparr>StatusCode = 200, RespBody = ''error''\<rparr> # []"
    by (simp add: node_def node_Do_def peerQuery_def upt_rec)
  have gathered: "gatherResponses node
      \<lparr>Params = ''other'', Matched = 0, ErrorCount = 0, Duration = [], Records = []\<rparr>
      [Failed ''connection refused''] =
      Inr \<lparr>Params = ''other'', Matched = 0, ErrorCount = 1, Duration = [], Records = []\<rparr>"
    by simp
  have ok: "StatusCode \<lparr>StatusCode = 200, RespBody = ''error''\<rparr> = StatusOK"
    by (simp add: StatusOK_def)
  have refused: "Merge node
      \<lparr>Params = ''other'', Matched = 0, ErrorCount = 1, Duration = [], Records = []\<rparr>
      (DecodeFrom node \<lparr>StatusCode = 200, RespBody = ''error''\<rparr>) = Inl ''mismatched params''"
    by (simp add: node_def node_DecodeFrom_def Merge_spec_def)
  have unsent: "wroteHeader (sent (Server fresh)) = None"
    by (simp add: fresh_def)
  have aborted:
    "handleUserQuery node (Server fresh) (request ''GET'' ''/query'' ''q=other'' []) False =
       respond (http_Error (Server fresh) (''merging results: '' @ ''mismatched params'')
           StatusInternalServerError)
         (map ClientDo [peerQuery ''GET'' ''10.0.0.1:7650'', peerQuery ''GET'' ''10.0.0.2:7650''])"
    and status:
    "wroteHeader (sent (wr (handleUserQuery node (Server fresh)
        (request ''GET'' ''/query'' ''q=other'' []) False))) = Some StatusInternalServerError"
    using handleUserQuery_merge_failure_aborts
      [OF some params built arrived gathered ok refused unsent]
    by blast+
  from aborted show ?thesis
    unfolding status by (simp add: StatusInternalServerError_def)
qed

end
